theory Spec2Isabelle
  imports Main "HOL-Library.AList" "HOL-Library.Sublist"
begin

section \<open>JavaScript values, errors and promises\<close>

text \<open>
  Everything a \<^verbatim>\<open>throw\<close> or a rejected promise carries in these modules is an
  \<^verbatim>\<open>Error\<close> object; the code only ever reads its \<^verbatim>\<open>message\<close>.
\<close>

datatype js_error = Error (message: string) | TypeError (message: string)

datatype js_value =
    JUndefined
  | JNull
  | JBool bool
  | JNum int
  | JStr string
  | JArr "js_value list"
  | JObj "(string \<times> js_value) list"

text \<open>An object literal: its own properties in insertion order.\<close>

type_synonym js_object = "(string \<times> js_value) list"

text \<open>
  How the promise returned by an \<^verbatim>\<open>async\<close> function settles: a \<^verbatim>\<open>return\<close>
  resolves it, a \<^verbatim>\<open>throw\<close> (or an awaited rejection that is not caught) rejects it.
\<close>

datatype 'a promise = Resolved 'a | Rejected js_error

text \<open>
  \<^verbatim>\<open>Object.assign(target, source)\<close>: every property of the source is written to the
  target, replacing the value of a key that is there and appending a new key.
\<close>

definition object_assign :: "js_object \<Rightarrow> js_object \<Rightarrow> js_object" where
  "object_assign target source = fold (\<lambda>(k, v) obj. AList.update k v obj) source target"

text \<open>Reading a property of an object: \<^verbatim>\<open>undefined\<close> when the key is absent.\<close>

definition get_property :: "js_object \<Rightarrow> string \<Rightarrow> js_value" where
  "get_property obj k = (case map_of obj k of None \<Rightarrow> JUndefined | Some v \<Rightarrow> v)"

text \<open>
  The destructuring \<^verbatim>\<open>const { k: x } = v\<close>: a TypeError on \<^verbatim>\<open>undefined\<close> and
  \<^verbatim>\<open>null\<close>, the property of an object, and \<^verbatim>\<open>undefined\<close> on the other values
  (the keys read here, \<^verbatim>\<open>signature\<close> and \<^verbatim>\<open>success\<close>, are no property of a
  primitive or of an array).
\<close>

fun destructure :: "js_value \<Rightarrow> string \<Rightarrow> js_error + js_value" where
  "destructure JUndefined k = Inl (TypeError (''Cannot destructure property '' @ k))"
| "destructure JNull k = Inl (TypeError (''Cannot destructure property '' @ k))"
| "destructure (JObj obj) k = Inr (get_property obj k)"
| "destructure v k = Inr JUndefined"

text \<open>An optional string field of a request, as the value the payload carries.\<close>

fun string_field :: "string option \<Rightarrow> js_value" where
  "string_field None = JUndefined"
| "string_field (Some s) = JStr s"

fun number_field :: "int option \<Rightarrow> js_value" where
  "number_field None = JUndefined"
| "number_field (Some n) = JNum n"

section \<open>Hexadecimal rendering\<close>

text \<open>
  \<^verbatim>\<open>n.toString(16)\<close> of an integer (a number or a big number): lower-case digits,
  no prefix, a minus sign before the digits of a negative value.
\<close>

definition hex_digit :: "nat \<Rightarrow> char" where
  "hex_digit d = ''0123456789abcdef'' ! (d mod 16)"

fun to_hex :: "nat \<Rightarrow> string" where
  "to_hex n = (if n < 16 then [hex_digit n] else to_hex (n div 16) @ [hex_digit (n mod 16)])"

declare to_hex.simps [simp del]

definition toString16 :: "int \<Rightarrow> string" where
  "toString16 i = (if i < 0 then CHR ''-'' # to_hex (nat (- i)) else to_hex (nat i))"

text \<open>
  Modelled from the spec: \<^verbatim>\<open>multipleOfTwoHexValueNormalizer\<close> of
  \<^verbatim>\<open>core/normalizers\<close> is not among the sources. The spec: "pads a raw hex string
  (without prefix) to even length"; the comment at its call site: "padded as a multiple
  of two. Eg: '3' to be '03', `12c` to be `012c`".
\<close>

definition multipleOfTwoHexValueNormalizer :: "string \<Rightarrow> string" where
  "multipleOfTwoHexValueNormalizer hexValue =
     (if odd (length hexValue) then CHR ''0'' # hexValue else hexValue)"

text \<open>
  The number a string of hexadecimal digits denotes, as a big-number parse reads it
  (either case of the letters; \<open>None\<close> when a character is no digit).
\<close>

definition hex_digit_value :: "char \<Rightarrow> nat option" where
  "hex_digit_value c =
     (if c \<in> set ''0123456789'' then Some (of_char c - 48)
      else if c \<in> set ''abcdef'' then Some (of_char c - 87)
      else if c \<in> set ''ABCDEF'' then Some (of_char c - 55)
      else None)"

definition hex_step :: "nat option \<Rightarrow> char \<Rightarrow> nat option" where
  "hex_step acc c =
     (case acc of
        None \<Rightarrow> None
      | Some a \<Rightarrow> (case hex_digit_value c of None \<Rightarrow> None | Some d \<Rightarrow> Some (16 * a + d)))"

definition hex_value :: "string \<Rightarrow> nat option" where
  "hex_value s = foldl hex_step (Some 0) s"

text \<open>The digits of a hex string: the string without a leading \<^verbatim>\<open>0x\<close>.\<close>

definition without_prefix :: "string \<Rightarrow> string" where
  "without_prefix hexString = (if take 2 hexString = ''0x'' then drop 2 hexString else hexString)"

text \<open>
  Modelled from the spec: \<^verbatim>\<open>hexSequenceNormalizer\<close> of \<^verbatim>\<open>core/normalizers\<close> is
  not among the sources. The spec: "ensures `0x` prefix and even-length hex digit count
  (left-pads with a zero if odd)".
\<close>

definition hexSequenceNormalizer :: "string \<Rightarrow> string" where
  "hexSequenceNormalizer hexString =
     (let digits = without_prefix hexString
      in ''0x'' @ (if odd (length digits) then CHR ''0'' # digits else digits))"

section \<open>The hardware wallet's static methods\<close>

text \<open>
  What the module imports and this development does not see: the validators (\<open>Inl\<close> is
  the error a validator throws), the path normalizer, the path parser of
  \<^verbatim>\<open>bip32-path\<close> (\<^verbatim>\<open>fromString(p, true).toPathArray()\<close>, which throws on a string
  it cannot parse), the address check of \<^verbatim>\<open>ethers\<close>, the listener that sends a payload
  to the device and settles with its answer, the conversion \<^verbatim>\<open>bigNumber(n).toGwei()\<close>,
  the payload templates, the cancellation sentinel and the warning text.
\<close>

record hw_imports =
  derivationPathValidator :: "string option \<Rightarrow> js_error + unit"
  bigNumberValidator :: "int \<Rightarrow> js_error + unit"
  safeIntegerValidator :: "int option \<Rightarrow> js_error + unit"
  derivationPathNormalizer :: "string option \<Rightarrow> string"
  fromString_toPathArray :: "string \<Rightarrow> js_error + nat list"
  validateAddress :: "string option \<Rightarrow> js_error + string"
  payloadListener :: "js_object \<Rightarrow> js_value promise"
  toGwei :: "int \<Rightarrow> int"
  PAYLOAD_SIGNTX :: js_object
  PAYLOAD_SIGNMSG :: js_object
  PAYLOAD_VERIFYMSG :: js_object
  CANCEL_TX_SIGN :: string
  userSignTxCancel :: string

text \<open>
  What a call leaves behind: the payloads handed to the listener, in order, the
  warnings logged, and the seeds handed to the icon library.
\<close>

record world =
  dispatched :: "js_object list"
  warnings :: "string list"
  icons_created :: "string list"

definition warning :: "string \<Rightarrow> world \<Rightarrow> world" where
  "warning msg w = w\<lparr>warnings := warnings w @ [msg]\<rparr>"

definition dispatch :: "js_object \<Rightarrow> world \<Rightarrow> world" where
  "dispatch payload w = w\<lparr>dispatched := dispatched w @ [payload]\<rparr>"

text \<open>The Flow type \<^verbatim>\<open>TransactionObjectType\<close>; \<open>None\<close> is an absent field.\<close>

record transaction_object =
  path :: "string option"
  gasPrice :: "int option"
  gasLimit :: "string option"
  chainId :: "int option"
  nonce :: "int option"
  to :: "string option"
  "value" :: "string option"
  data :: "string option"

text \<open>
  The default values of the parameters: \<^verbatim>\<open>gasPrice = bigNumber(10).toGwei()\<close> and
  \<^verbatim>\<open>nonce = 0\<close> stand in for an absent field.
\<close>

definition gasPrice_or_default :: "hw_imports \<Rightarrow> transaction_object \<Rightarrow> int" where
  "gasPrice_or_default env tx = (case gasPrice tx of None \<Rightarrow> toGwei env 10 | Some g \<Rightarrow> g)"

definition nonce_or_default :: "transaction_object \<Rightarrow> int" where
  "nonce_or_default tx = (case nonce tx of None \<Rightarrow> 0 | Some n \<Rightarrow> n)"

text \<open>The fields \<^verbatim>\<open>signTransaction\<close> lays over the template.\<close>

definition signtx_fields ::
  "nat list \<Rightarrow> int \<Rightarrow> int \<Rightarrow> transaction_object \<Rightarrow> js_object" where
  "signtx_fields address_n gas_price nonce' tx =
     [(''address_n'', JArr (map (\<lambda>i. JNum (int i)) address_n)),
      (''gas_price'', JStr (multipleOfTwoHexValueNormalizer (toString16 gas_price))),
      (''gas_limit'', string_field (gasLimit tx)),
      (''chain_id'', number_field (chainId tx)),
      (''nonce'', JStr (multipleOfTwoHexValueNormalizer (toString16 nonce'))),
      (''to'', string_field (to tx)),
      (''value'', string_field (value tx)),
      (''data'', string_field (data tx))]"

definition signtx_payload ::
  "hw_imports \<Rightarrow> nat list \<Rightarrow> int \<Rightarrow> int \<Rightarrow> transaction_object \<Rightarrow> js_object" where
  "signtx_payload env address_n gas_price nonce' tx =
     object_assign (object_assign [] (PAYLOAD_SIGNTX env))
       (signtx_fields address_n gas_price nonce' tx)"

definition signTransaction_hardware ::
  "hw_imports \<Rightarrow> transaction_object \<Rightarrow> world \<Rightarrow> js_value promise \<times> world" where
  "signTransaction_hardware env tx w =
     (let gasPrice' = gasPrice_or_default env tx;
          nonce' = nonce_or_default tx
      in case derivationPathValidator env (path tx) of
           Inl e \<Rightarrow> (Rejected e, w)
         | Inr _ \<Rightarrow>
      (case bigNumberValidator env gasPrice' of
           Inl e \<Rightarrow> (Rejected e, w)
         | Inr _ \<Rightarrow>
      (case safeIntegerValidator env (chainId tx) of
           Inl e \<Rightarrow> (Rejected e, w)
         | Inr _ \<Rightarrow>
      (case safeIntegerValidator env (Some nonce') of
           Inl e \<Rightarrow> (Rejected e, w)
         | Inr _ \<Rightarrow>
      (case fromString_toPathArray env (derivationPathNormalizer env (path tx)) of
           Inl e \<Rightarrow> (Rejected e, w)
         | Inr address_n \<Rightarrow>
      (let modifiedPayloadObject = signtx_payload env address_n gasPrice' nonce' tx;
           w' = dispatch modifiedPayloadObject w
       in case payloadListener env modifiedPayloadObject of
            Resolved signedTransaction \<Rightarrow> (Resolved signedTransaction, w')
          | Rejected caughtError \<Rightarrow>
              (Resolved JUndefined,
               if message caughtError = CANCEL_TX_SIGN env
               then warning (userSignTxCancel env) w' else w')))))))"

text \<open>The Flow type \<^verbatim>\<open>MessageObjectType\<close>.\<close>

record message_object =
  msg_path :: "string option"
  msg_address :: "string option"
  msg_message :: "string option"
  msg_signature :: "string option"

definition signmsg_payload :: "hw_imports \<Rightarrow> nat list \<Rightarrow> message_object \<Rightarrow> js_object" where
  "signmsg_payload env path_array m =
     object_assign (object_assign [] (PAYLOAD_SIGNMSG env))
       [(''path'', JArr (map (\<lambda>i. JNum (int i)) path_array)),
        (''message'', string_field (msg_message m))]"

definition signMessage_hardware ::
  "hw_imports \<Rightarrow> message_object \<Rightarrow> world \<Rightarrow> js_value promise \<times> world" where
  "signMessage_hardware env m w =
     (case derivationPathValidator env (msg_path m) of
        Inl e \<Rightarrow> (Rejected e, w)
      | Inr _ \<Rightarrow>
     (case fromString_toPathArray env (derivationPathNormalizer env (msg_path m)) of
        Inl e \<Rightarrow> (Rejected e, w)
      | Inr path_array \<Rightarrow>
     (let payload = signmsg_payload env path_array m;
          w' = dispatch payload w
      in case payloadListener env payload of
           Rejected e \<Rightarrow> (Rejected e, w')
         | Resolved response \<Rightarrow>
             (case destructure response ''signature'' of
                Inl e \<Rightarrow> (Rejected e, w')
              | Inr signedMessage \<Rightarrow> (Resolved signedMessage, w')))))"

definition verifymsg_payload :: "hw_imports \<Rightarrow> string \<Rightarrow> message_object \<Rightarrow> js_object" where
  "verifymsg_payload env strippedPrefixAddress m =
     object_assign (object_assign [] (PAYLOAD_VERIFYMSG env))
       [(''address'', JStr strippedPrefixAddress),
        (''message'', string_field (msg_message m)),
        (''signature'', string_field (msg_signature m))]"

definition verifyMessage ::
  "hw_imports \<Rightarrow> message_object \<Rightarrow> world \<Rightarrow> js_value promise \<times> world" where
  "verifyMessage env m w =
     (case validateAddress env (msg_address m) of
        Inl e \<Rightarrow> (Rejected e, w)
      | Inr validatedAddress \<Rightarrow>
     (let strippedPrefixAddress =
            (if take 2 validatedAddress = ''0x'' then drop 2 validatedAddress
             else validatedAddress);
          payload = verifymsg_payload env strippedPrefixAddress m;
          w' = dispatch payload w
      in case payloadListener env payload of
           Rejected e \<Rightarrow> (Rejected e, w')
         | Resolved response \<Rightarrow>
             (case destructure response ''success'' of
                Inl e \<Rightarrow> (Rejected e, w')
              | Inr isMessageValid \<Rightarrow> (Resolved isMessageValid, w'))))"

section \<open>The software wallet's static methods\<close>

text \<open>
  What \<^verbatim>\<open>transactionObjectValidator\<close> returns: the validated fields, the numbers as
  big numbers.
\<close>

record validated_transaction =
  v_gasPrice :: int
  v_gasLimit :: int
  v_chainId :: int
  v_nonce :: int
  v_to :: string
  v_value :: int
  v_inputData :: string

text \<open>The object the signer callback is called with.\<close>

record signer_request =
  s_gasPrice :: int
  s_gasLimit :: int
  s_chainId :: int
  s_nonce :: int
  s_to :: string
  s_value :: int
  s_data :: string

text \<open>
  What the module imports and this development does not see: the validator of the
  transaction object (\<open>Inl\<close> is the error it throws), the address normalizer, the
  serializer of an object for an error message, and the message prefix
  \<^verbatim>\<open>messages.cannotSign\<close>.
\<close>

record sw_imports =
  transactionObjectValidator :: "js_object \<Rightarrow> js_error + validated_transaction"
  addressNormalizer :: "string \<Rightarrow> string"
  objectToErrorString :: "js_object \<Rightarrow> string"
  cannotSign :: string

text \<open>
  \<^verbatim>\<open>bigNumberify(n.toString())\<close>: the big number of the signing library with the
  value of \<open>n\<close>.
\<close>

definition bigNumberify :: "int \<Rightarrow> int" where
  "bigNumberify n = n"

definition signer_request_of :: "sw_imports \<Rightarrow> validated_transaction \<Rightarrow> signer_request" where
  "signer_request_of env v =
     \<lparr>s_gasPrice = bigNumberify (v_gasPrice v),
      s_gasLimit = bigNumberify (v_gasLimit v),
      s_chainId = v_chainId v,
      s_nonce = v_nonce v,
      s_to = addressNormalizer env (v_to v),
      s_value = bigNumberify (v_value v),
      s_data = hexSequenceNormalizer (v_inputData v)\<rparr>"

text \<open>
  The callback returns the signed transaction or throws; \<open>transactionObject\<close> is the
  argument without its \<^verbatim>\<open>callback\<close> property.
\<close>

definition signTransaction_software ::
  "sw_imports \<Rightarrow> (signer_request \<Rightarrow> js_error + string) \<Rightarrow> js_object \<Rightarrow> string promise" where
  "signTransaction_software env callback transactionObject =
     (case transactionObjectValidator env transactionObject of
        Inl e \<Rightarrow> Rejected e
      | Inr v \<Rightarrow>
          (case callback (signer_request_of env v) of
             Inr signedTransaction \<Rightarrow> Resolved (hexSequenceNormalizer signedTransaction)
           | Inl caughtError \<Rightarrow>
               Rejected (Error (cannotSign env @ '' '' @ objectToErrorString env transactionObject
                                @ '' '' @ message caughtError))))"

section \<open>The software wallet's visual identifier\<close>

text \<open>What the getter reads of the wallet: its address, \<open>None\<close> while none is set.\<close>

record software_wallet =
  address :: "string option"

text \<open>
  Modelled from the spec: the class \<^verbatim>\<open>SoftwareWallet\<close> and its \<^verbatim>\<open>blockie\<close> getter
  are not among the sources (only their test is). The spec: "a lazily computed visual
  identifier (a deterministic icon-like image encoded as a base64 string, derived from the
  address via an external icon-generation library). Accessing the visual identifier before
  an address is set fails softly (returns no value, logs a warning) rather than throwing",
  and "must resolve to an empty result without invoking the icon-generation capability".
  The icon library (seed to base64 data) and the warning text are parameters. The test
  among the sources reads the getter of a wallet without address and expects the warning
  and no call of \<^verbatim>\<open>blockies.create\<close>; the outcome it writes down is
  \<^verbatim>\<open>rejects.toEqual(undefined)\<close>, in an assertion it does not await. The model
  keeps to the wording of the spec, a promise resolved without value.
\<close>

definition blockie ::
  "(string \<Rightarrow> string) \<Rightarrow> string \<Rightarrow> software_wallet \<Rightarrow> world \<Rightarrow> js_value promise \<times> world" where
  "blockie create noAddress wallet w =
     (case address wallet of
        Some a \<Rightarrow> (Resolved (JStr (create a)), w\<lparr>icons_created := icons_created w @ [a]\<rparr>)
      | None \<Rightarrow> (Resolved JUndefined, warning noAddress w))"

section \<open>A concrete instance of the imports\<close>

text \<open>
  One instance of the imported helpers, on which the methods are run on concrete
  requests. None of the theorems below depends on it but the ones that evaluate a method
  at a concrete input.
\<close>

text \<open>Splitting a path at its separators, and reading a segment as its index.\<close>

fun split_on :: "char \<Rightarrow> string \<Rightarrow> string list" where
  "split_on c [] = [[]]"
| "split_on c (x # xs) =
     (if x = c then [] # split_on c xs
      else (case split_on c xs of [] \<Rightarrow> [[x]] | y # ys \<Rightarrow> (x # y) # ys))"

definition decimal_digit :: "char \<Rightarrow> bool" where
  "decimal_digit c = (c \<in> set ''0123456789'')"

definition decimal_value :: "string \<Rightarrow> nat" where
  "decimal_value s = foldl (\<lambda>acc c. 10 * acc + (of_char c - 48)) 0 s"

definition plain_segment :: "string \<Rightarrow> bool" where
  "plain_segment s = (s \<noteq> [] \<and> list_all decimal_digit s)"

definition hardened_segment :: "string \<Rightarrow> bool" where
  "hardened_segment s = (s \<noteq> [] \<and> last s = CHR 0x27 \<and> plain_segment (butlast s))"

definition path_segment :: "string \<Rightarrow> nat option" where
  "path_segment s =
     (if plain_segment s then Some (decimal_value s)
      else if hardened_segment s then Some (decimal_value (butlast s) + 2147483648)
      else None)"

text \<open>
  Modelled from the spec: \<^verbatim>\<open>derivationPathValidator\<close> "fails if the path string does
  not match the canonical `m/i'/i'/i'/i/i` grammar".
\<close>

definition sample_derivationPathValidator :: "string option \<Rightarrow> js_error + unit" where
  "sample_derivationPathValidator p =
     (case p of
        None \<Rightarrow> Inl (Error ''The derivation path is not in the correct format'')
      | Some s \<Rightarrow>
          (case split_on CHR ''/'' s of
             [m, purpose, coin, account, change, index] \<Rightarrow>
               if m = ''m'' \<and> hardened_segment purpose \<and> hardened_segment coin
                  \<and> hardened_segment account \<and> plain_segment change \<and> plain_segment index
               then Inr ()
               else Inl (Error ''The derivation path is not in the correct format'')
           | _ \<Rightarrow> Inl (Error ''The derivation path is not in the correct format'')))"

text \<open>
  Modelled from the spec: \<^verbatim>\<open>bigNumberValidator\<close> "fails if value cannot be interpreted
  as a non-negative arbitrary-precision integer".
\<close>

definition sample_bigNumberValidator :: "int \<Rightarrow> js_error + unit" where
  "sample_bigNumberValidator n =
     (if 0 \<le> n then Inr () else Inl (Error ''The value is not a big number''))"

text \<open>
  Modelled from the spec: \<^verbatim>\<open>safeIntegerValidator\<close> "fails if value is not an integer
  within the platform's safe-integer range", that is, beyond \<open>2 ^ 53 - 1\<close> on either
  side; an absent value is no integer.
\<close>

definition sample_safeIntegerValidator :: "int option \<Rightarrow> js_error + unit" where
  "sample_safeIntegerValidator i =
     (case i of
        None \<Rightarrow> Inl (Error ''The value is not a safe integer'')
      | Some n \<Rightarrow>
          if - 9007199254740991 \<le> n \<and> n \<le> 9007199254740991 then Inr ()
          else Inl (Error ''The value is not a safe integer''))"

text \<open>
  Modelled from the spec: \<^verbatim>\<open>derivationPathNormalizer\<close> "fills in default path segments
  if a shorthand path is supplied"; the instance covers the paths that are already
  canonical, which it leaves as they are.
\<close>

definition sample_derivationPathNormalizer :: "string option \<Rightarrow> string" where
  "sample_derivationPathNormalizer p = (case p of None \<Rightarrow> [] | Some s \<Rightarrow> s)"

text \<open>
  The path parser of \<^verbatim>\<open>bip32-path\<close>: after \<^verbatim>\<open>m\<close>, each segment is its index, a
  hardened one (\<^verbatim>\<open>i'\<close>) with \<open>2 ^ 31\<close> added.
\<close>

definition sample_fromString_toPathArray :: "string \<Rightarrow> js_error + nat list" where
  "sample_fromString_toPathArray s =
     (case split_on CHR ''/'' s of
        [] \<Rightarrow> Inl (Error ''The path is not valid'')
      | m # segments \<Rightarrow>
          if m = ''m'' \<and> list_all (\<lambda>x. path_segment x \<noteq> None) segments
          then Inr (map (\<lambda>x. case path_segment x of None \<Rightarrow> 0 | Some i \<Rightarrow> i) segments)
          else Inl (Error ''The path is not valid''))"

text \<open>
  An address check in the manner of \<^verbatim>\<open>getAddress\<close>: 40 hex digits, with or without
  \<^verbatim>\<open>0x\<close>; the instance returns the address as it was given.
\<close>

definition sample_validateAddress :: "string option \<Rightarrow> js_error + string" where
  "sample_validateAddress a =
     (case a of
        None \<Rightarrow> Inl (Error ''invalid address'')
      | Some s \<Rightarrow>
          if length (without_prefix s) = 40
             \<and> list_all (\<lambda>c. hex_digit_value c \<noteq> None) (without_prefix s)
          then Inr s else Inl (Error ''invalid address''))"

text \<open>The instance, for a given behaviour of the device.\<close>

definition sample_imports :: "(js_object \<Rightarrow> js_value promise) \<Rightarrow> hw_imports" where
  "sample_imports device =
     \<lparr>derivationPathValidator = sample_derivationPathValidator,
      bigNumberValidator = sample_bigNumberValidator,
      safeIntegerValidator = sample_safeIntegerValidator,
      derivationPathNormalizer = sample_derivationPathNormalizer,
      fromString_toPathArray = sample_fromString_toPathArray,
      validateAddress = sample_validateAddress,
      payloadListener = device,
      toGwei = (\<lambda>n. n * 1000000000),
      PAYLOAD_SIGNTX = [(''type'', JStr ''SIGNTX'')],
      PAYLOAD_SIGNMSG = [(''type'', JStr ''SIGNMSG'')],
      PAYLOAD_VERIFYMSG = [(''type'', JStr ''VERIFYMSG'')],
      CANCEL_TX_SIGN = ''Action cancelled by user'',
      userSignTxCancel = ''The user cancelled signing the transaction''\<rparr>"

definition sample_transaction :: transaction_object where
  "sample_transaction =
     \<lparr>path = Some ''m/44'/60'/0'/0/0'',
      gasPrice = None,
      gasLimit = Some ''5208'',
      chainId = Some 1,
      nonce = None,
      to = Some ''0x52908400098527886E0F7030069857D2E4169EE7'',
      value = Some ''01'',
      data = None\<rparr>"

definition sample_message :: message_object where
  "sample_message =
     \<lparr>msg_path = Some ''m/44'/60'/0'/0/0'',
      msg_address = Some ''0x52908400098527886E0F7030069857D2E4169EE7'',
      msg_message = Some ''hello'',
      msg_signature = Some ''c2lnbmF0dXJl''\<rparr>"

definition initial_world :: world where
  "initial_world = \<lparr>dispatched = [], warnings = [], icons_created = []\<rparr>"

text \<open>
  Modelled from the spec: \<^verbatim>\<open>transactionObjectValidator\<close> "fails if required fields
  are missing or structurally invalid; returns the validated field set (defaults applied:
  absent nonce \<rightarrow> 0, absent gasPrice \<rightarrow> a fixed default)". The instance
  requires \<^verbatim>\<open>chainId\<close> and \<^verbatim>\<open>to\<close>; its defaults are those of the comment of the
  software \<^verbatim>\<open>signTransaction\<close>: 9 GWEI, 21000, and the value 1.
\<close>

definition integer_or :: "int \<Rightarrow> js_value \<Rightarrow> int" where
  "integer_or d v = (case v of JNum n \<Rightarrow> n | _ \<Rightarrow> d)"

definition sample_transactionObjectValidator :: "js_object \<Rightarrow> js_error + validated_transaction" where
  "sample_transactionObjectValidator obj =
     (case (get_property obj ''chainId'', get_property obj ''to'') of
        (JNum c, JStr t) \<Rightarrow>
          Inr \<lparr>v_gasPrice = integer_or 9000000000 (get_property obj ''gasPrice''),
               v_gasLimit = integer_or 21000 (get_property obj ''gasLimit''),
               v_chainId = c,
               v_nonce = integer_or 0 (get_property obj ''nonce''),
               v_to = t,
               v_value = integer_or 1 (get_property obj ''value''),
               v_inputData = (case get_property obj ''inputData'' of JStr d \<Rightarrow> d | _ \<Rightarrow> [])\<rparr>
      | _ \<Rightarrow> Inl (Error ''The transaction object is not valid''))"

text \<open>
  Modelled from the spec: \<^verbatim>\<open>objectToErrorString\<close> is "a deterministic object-to-string
  routine"; the instance lists the properties in their order.
\<close>

definition sample_objectToErrorString :: "js_object \<Rightarrow> string" where
  "sample_objectToErrorString obj =
     concat (map (\<lambda>(k, v). k @ '': '' @
                   (case v of JStr x \<Rightarrow> x | JNum n \<Rightarrow> ''0x'' @ toString16 n | _ \<Rightarrow> ''?'') @ '', '') obj)"

definition sample_sw_imports :: sw_imports where
  "sample_sw_imports =
     \<lparr>transactionObjectValidator = sample_transactionObjectValidator,
      addressNormalizer = (\<lambda>a. a),
      objectToErrorString = sample_objectToErrorString,
      cannotSign = ''Cannot sign the transaction''\<rparr>"

definition sample_transactionObject :: js_object where
  "sample_transactionObject =
     [(''chainId'', JNum 1),
      (''to'', JStr ''0x52908400098527886E0F7030069857D2E4169EE7''),
      (''nonce'', JNum 3)]"

section \<open>Objects and their properties\<close>

lemma map_of_object_assign:
  "map_of (object_assign t s) = map_of t ++ map_of (rev s)"
  unfolding object_assign_def
proof (induction s arbitrary: t)
  case Nil
  show ?case by simp
next
  case (Cons kv s)
  obtain k v where kv: "kv = (k, v)" by (cases kv)
  show ?case
    by (simp add: kv Cons.IH AList.update_conv' fun_eq_iff map_add_def split: option.splits)
qed

lemma signtx_payload_fields:
  "get_property (signtx_payload env a g n tx) ''address_n'' = JArr (map (\<lambda>i. JNum (int i)) a)"
  "get_property (signtx_payload env a g n tx) ''gas_price'' =
     JStr (multipleOfTwoHexValueNormalizer (toString16 g))"
  "get_property (signtx_payload env a g n tx) ''gas_limit'' = string_field (gasLimit tx)"
  "get_property (signtx_payload env a g n tx) ''chain_id'' = number_field (chainId tx)"
  "get_property (signtx_payload env a g n tx) ''nonce'' =
     JStr (multipleOfTwoHexValueNormalizer (toString16 n))"
  "get_property (signtx_payload env a g n tx) ''to'' = string_field (to tx)"
  "get_property (signtx_payload env a g n tx) ''value'' = string_field (value tx)"
  "get_property (signtx_payload env a g n tx) ''data'' = string_field (data tx)"
  by (simp_all add: signtx_payload_def signtx_fields_def get_property_def map_of_object_assign)

lemma signtx_payload_template:
  "k \<notin> {''address_n'', ''gas_price'', ''gas_limit'', ''chain_id'', ''nonce'', ''to'', ''value'', ''data''}
   \<Longrightarrow> get_property (signtx_payload env a g n tx) k
       = get_property (object_assign [] (PAYLOAD_SIGNTX env)) k"
  by (simp add: signtx_payload_def signtx_fields_def get_property_def map_of_object_assign
        map_add_def)

lemma map_of_rev_distinct:
  "distinct (map fst obj) \<Longrightarrow> map_of (rev obj) = map_of obj"
proof (induction obj)
  case Nil
  show ?case by simp
next
  case (Cons kv obj)
  then have "map_of obj (fst kv) = None"
    by (simp add: map_of_eq_None_iff)
  with Cons show ?case
    by (auto simp: fun_eq_iff map_add_def split: option.splits)
qed

lemma object_assign_copy:
  "distinct (map fst obj) \<Longrightarrow> get_property (object_assign [] obj) k = get_property obj k"
  by (simp add: get_property_def map_of_object_assign map_of_rev_distinct)

lemma verifymsg_payload_fields:
  "get_property (verifymsg_payload env addr m) ''address'' = JStr addr"
  "get_property (verifymsg_payload env addr m) ''message'' = string_field (msg_message m)"
  "get_property (verifymsg_payload env addr m) ''signature'' = string_field (msg_signature m)"
  by (simp_all add: verifymsg_payload_def get_property_def map_of_object_assign)

lemma dispatched_after:
  "dispatched (dispatch p w) = dispatched w @ [p]"
  "dispatched (warning m w) = dispatched w"
  "warnings (dispatch p w) = warnings w"
  "warnings (warning m w) = warnings w @ [m]"
  "icons_created (dispatch p w) = icons_created w"
  "icons_created (warning m w) = icons_created w"
  by (simp_all add: dispatch_def warning_def)

section \<open>Hexadecimal strings\<close>

lemma even_multipleOfTwoHexValueNormalizer:
  "even (length (multipleOfTwoHexValueNormalizer s))"
  by (simp add: multipleOfTwoHexValueNormalizer_def)

lemma hex_digit_value_table:
  "map hex_digit_value ''0123456789abcdef'' = map Some [0..<16]"
  by (simp add: hex_digit_value_def upt_rec)

lemma hex_digit_value_hex_digit:
  assumes "d < 16"
  shows "hex_digit_value (hex_digit d) = Some d"
proof -
  have "hex_digit_value (hex_digit d) = hex_digit_value (''0123456789abcdef'' ! d)"
    using assms by (simp only: hex_digit_def mod_less)
  also have "\<dots> = map hex_digit_value ''0123456789abcdef'' ! d"
    using assms by (intro nth_map [symmetric]) simp
  also have "\<dots> = map Some [0..<16] ! d"
    by (simp only: hex_digit_value_table)
  also have "\<dots> = Some d"
    using assms by (simp del: upt_Suc)
  finally show ?thesis .
qed

lemma hex_value_snoc: "hex_value (s @ [c]) = hex_step (hex_value s) c"
  by (simp add: hex_value_def)

lemma hex_value_to_hex: "hex_value (to_hex n) = Some n"
proof (induction n rule: to_hex.induct)
  case (1 n)
  show ?case
  proof (cases "n < 16")
    case True
    then show ?thesis
      by (subst to_hex.simps) (simp add: hex_value_def hex_step_def hex_digit_value_hex_digit)
  next
    case False
    then have "hex_value (to_hex (n div 16)) = Some (n div 16)"
      using "1.IH" by simp
    with False show ?thesis
      by (subst to_hex.simps) (simp add: hex_value_snoc hex_step_def hex_digit_value_hex_digit)
  qed
qed

lemma hex_value_zero_Cons: "hex_value (CHR ''0'' # s) = hex_value s"
  by (simp add: hex_value_def hex_step_def hex_digit_value_def)

lemma hex_value_rendered:
  "0 \<le> i \<Longrightarrow> hex_value (multipleOfTwoHexValueNormalizer (toString16 i)) = Some (nat i)"
  by (simp add: multipleOfTwoHexValueNormalizer_def hex_value_zero_Cons toString16_def
        hex_value_to_hex)

lemma hexSequenceNormalizer_shape:
  "\<exists>digits. hexSequenceNormalizer s = ''0x'' @ digits \<and> even (length digits)
     \<and> hex_value digits = hex_value (without_prefix s)"
  by (simp add: hexSequenceNormalizer_def Let_def hex_value_zero_Cons)

section \<open>Running the methods on the concrete instance\<close>

lemma sample_path_accepted:
  "sample_derivationPathValidator (Some ''m/44'/60'/0'/0/0'') = Inr ()"
  by (simp add: sample_derivationPathValidator_def hardened_segment_def plain_segment_def
        decimal_digit_def)

lemma sample_path_array:
  "sample_fromString_toPathArray ''m/44'/60'/0'/0/0''
     = Inr [2147483692, 2147483708, 2147483648, 0, 0]"
  by (simp add: sample_fromString_toPathArray_def path_segment_def hardened_segment_def
        plain_segment_def decimal_digit_def decimal_value_def)

lemma sample_transaction_accepted:
  "derivationPathValidator (sample_imports device) (path sample_transaction) = Inr ()"
  "bigNumberValidator (sample_imports device)
     (gasPrice_or_default (sample_imports device) sample_transaction) = Inr ()"
  "safeIntegerValidator (sample_imports device) (chainId sample_transaction) = Inr ()"
  "safeIntegerValidator (sample_imports device) (Some (nonce_or_default sample_transaction)) = Inr ()"
  "fromString_toPathArray (sample_imports device)
     (derivationPathNormalizer (sample_imports device) (path sample_transaction))
     = Inr [2147483692, 2147483708, 2147483648, 0, 0]"
  by (simp_all add: sample_imports_def sample_transaction_def sample_path_accepted
        sample_path_array gasPrice_or_default_def nonce_or_default_def
        sample_bigNumberValidator_def sample_safeIntegerValidator_def
        sample_derivationPathNormalizer_def)

lemma sample_defaults:
  "gasPrice_or_default (sample_imports device) sample_transaction = 10000000000"
  "nonce_or_default sample_transaction = 0"
  by (simp_all add: gasPrice_or_default_def nonce_or_default_def sample_imports_def
        sample_transaction_def)

lemma sample_rendered:
  "multipleOfTwoHexValueNormalizer (toString16 10000000000) = ''02540be400''"
  "multipleOfTwoHexValueNormalizer (toString16 0) = ''00''"
  by (simp_all add: multipleOfTwoHexValueNormalizer_def toString16_def to_hex.simps hex_digit_def)

lemma sample_transaction_fields:
  "chainId sample_transaction = Some 1"
  "to sample_transaction = Some ''0x52908400098527886E0F7030069857D2E4169EE7''"
  "value sample_transaction = Some ''01''"
  "data sample_transaction = None"
  "gasLimit sample_transaction = Some ''5208''"
  "nonce sample_transaction = None"
  "gasPrice sample_transaction = None"
  by (simp_all add: sample_transaction_def)

lemma sample_message_accepted:
  "derivationPathValidator (sample_imports device) (msg_path sample_message) = Inr ()"
  "fromString_toPathArray (sample_imports device)
     (derivationPathNormalizer (sample_imports device) (msg_path sample_message))
     = Inr [2147483692, 2147483708, 2147483648, 0, 0]"
  by (simp_all add: sample_imports_def sample_message_def sample_path_accepted sample_path_array
        sample_derivationPathNormalizer_def)

lemma sample_address_accepted:
  "sample_validateAddress (Some ''0x52908400098527886E0F7030069857D2E4169EE7'')
     = Inr ''0x52908400098527886E0F7030069857D2E4169EE7''"
  "sample_validateAddress (Some ''52908400098527886E0F7030069857D2E4169EE7'')
     = Inr ''52908400098527886E0F7030069857D2E4169EE7''"
  by (simp_all add: sample_validateAddress_def without_prefix_def hex_digit_value_def)

lemma sample_transactionObject_validated:
  "transactionObjectValidator sample_sw_imports sample_transactionObject =
     Inr \<lparr>v_gasPrice = 9000000000, v_gasLimit = 21000, v_chainId = 1, v_nonce = 3,
          v_to = ''0x52908400098527886E0F7030069857D2E4169EE7'', v_value = 1, v_inputData = []\<rparr>"
  by (simp add: sample_sw_imports_def sample_transactionObjectValidator_def
        sample_transactionObject_def get_property_def integer_or_def)

section \<open>The hardware path\<close>

text \<open>An accepted request reaches the dispatch, and the outcome is the listener's.\<close>

lemma signTransaction_hardware_accepted:
  assumes "derivationPathValidator env (path tx) = Inr ()"
    and "bigNumberValidator env (gasPrice_or_default env tx) = Inr ()"
    and "safeIntegerValidator env (chainId tx) = Inr ()"
    and "safeIntegerValidator env (Some (nonce_or_default tx)) = Inr ()"
    and "fromString_toPathArray env (derivationPathNormalizer env (path tx)) = Inr a"
  shows "signTransaction_hardware env tx w =
     (let p = signtx_payload env a (gasPrice_or_default env tx) (nonce_or_default tx) tx
      in case payloadListener env p of
           Resolved signedTransaction \<Rightarrow> (Resolved signedTransaction, dispatch p w)
         | Rejected caughtError \<Rightarrow>
             (Resolved JUndefined,
              if message caughtError = CANCEL_TX_SIGN env
              then warning (userSignTxCancel env) (dispatch p w) else dispatch p w))"
  using assms by (simp add: signTransaction_hardware_def Let_def)

text \<open>
  Claim C1. When the device channel rejects, the hardware \<^verbatim>\<open>signTransaction\<close> should
  resolve to \<^verbatim>\<open>undefined\<close> with a warning exactly for the cancellation sentinel, and
  surface every other rejection. What the code does: once the validators have accepted
  the request and the path has been parsed, a rejection \<open>e\<close> of the listener, whatever
  it is, ends in \<^verbatim>\<open>return undefined\<close>; the warning is logged exactly when the message
  of \<open>e\<close> is the sentinel. A rejection other than the cancellation is therefore not
  surfaced: the promise resolves to \<^verbatim>\<open>undefined\<close>, and nothing is logged.
\<close>

theorem signTransaction_hardware_rejection:
  assumes "derivationPathValidator env (path tx) = Inr ()"
    and "bigNumberValidator env (gasPrice_or_default env tx) = Inr ()"
    and "safeIntegerValidator env (chainId tx) = Inr ()"
    and "safeIntegerValidator env (Some (nonce_or_default tx)) = Inr ()"
    and "fromString_toPathArray env (derivationPathNormalizer env (path tx)) = Inr a"
    and "payloadListener env
           (signtx_payload env a (gasPrice_or_default env tx) (nonce_or_default tx) tx)
         = Rejected e"
  shows "fst (signTransaction_hardware env tx w) = Resolved JUndefined
     \<and> warnings (snd (signTransaction_hardware env tx w))
         = (if message e = CANCEL_TX_SIGN env then warnings w @ [userSignTxCancel env]
            else warnings w)"
  using assms(6)
  by (simp add: signTransaction_hardware_accepted [OF assms(1-5)] Let_def dispatched_after)

theorem signTransaction_hardware_rejection_witness:
  "''Device disconnected''
       \<noteq> CANCEL_TX_SIGN (sample_imports (\<lambda>p. Rejected (Error ''Device disconnected'')))
   \<and> fst (signTransaction_hardware (sample_imports (\<lambda>p. Rejected (Error ''Device disconnected'')))
            sample_transaction initial_world) = Resolved JUndefined
   \<and> warnings (snd (signTransaction_hardware
            (sample_imports (\<lambda>p. Rejected (Error ''Device disconnected'')))
            sample_transaction initial_world)) = []
   \<and> fst (signTransaction_hardware (sample_imports (\<lambda>p. Rejected (Error ''Action cancelled by user'')))
            sample_transaction initial_world) = Resolved JUndefined
   \<and> warnings (snd (signTransaction_hardware
            (sample_imports (\<lambda>p. Rejected (Error ''Action cancelled by user'')))
            sample_transaction initial_world)) = [''The user cancelled signing the transaction'']"
proof -
  let ?broken = "sample_imports (\<lambda>p. Rejected (Error ''Device disconnected''))"
  let ?cancel = "sample_imports (\<lambda>p. Rejected (Error ''Action cancelled by user''))"
  have rejected: "payloadListener ?broken p = Rejected (Error ''Device disconnected'')"
    "payloadListener ?cancel p = Rejected (Error ''Action cancelled by user'')" for p
    by (simp_all add: sample_imports_def)
  have texts: "CANCEL_TX_SIGN ?broken = ''Action cancelled by user''"
    "CANCEL_TX_SIGN ?cancel = ''Action cancelled by user''"
    "userSignTxCancel ?cancel = ''The user cancelled signing the transaction''"
    by (simp_all add: sample_imports_def)
  have quiet: "warnings initial_world = []"
    by (simp add: initial_world_def)
  show ?thesis
    using signTransaction_hardware_rejection [OF sample_transaction_accepted rejected(1),
        of initial_world]
      signTransaction_hardware_rejection [OF sample_transaction_accepted rejected(2),
        of initial_world]
    by (simp add: texts quiet)
qed

text \<open>
  Claim C3. For a request its validators accept (and whose normalized path the path library
  parses to the array \<open>a\<close>), the hardware \<^verbatim>\<open>signTransaction\<close> hands the listener one
  payload: the copy of the template \<^verbatim>\<open>PAYLOAD_SIGNTX\<close> with \<^verbatim>\<open>address_n\<close> the path
  array in its order, \<^verbatim>\<open>gas_price\<close> and \<^verbatim>\<open>nonce\<close> the hexadecimal rendering of the gas
  price and of the nonce, without prefix, of even length, with at most one zero put in
  front (and denoting the same number when that is not negative), and \<^verbatim>\<open>chain_id\<close>,
  \<^verbatim>\<open>to\<close>, \<^verbatim>\<open>value\<close> and \<^verbatim>\<open>data\<close> as given; every other key is the template's.
\<close>

theorem signTransaction_hardware_payload:
  assumes "derivationPathValidator env (path tx) = Inr ()"
    and "bigNumberValidator env (gasPrice_or_default env tx) = Inr ()"
    and "safeIntegerValidator env (chainId tx) = Inr ()"
    and "safeIntegerValidator env (Some (nonce_or_default tx)) = Inr ()"
    and "fromString_toPathArray env (derivationPathNormalizer env (path tx)) = Inr a"
    and "gas_price = multipleOfTwoHexValueNormalizer (toString16 (gasPrice_or_default env tx))"
    and "nonce_hex = multipleOfTwoHexValueNormalizer (toString16 (nonce_or_default tx))"
  shows "\<exists>p. dispatched (snd (signTransaction_hardware env tx w)) = dispatched w @ [p]
     \<and> get_property p ''address_n'' = JArr (map (\<lambda>i. JNum (int i)) a)
     \<and> get_property p ''gas_price'' = JStr gas_price
     \<and> even (length gas_price)
     \<and> gas_price \<in> {toString16 (gasPrice_or_default env tx),
                      CHR ''0'' # toString16 (gasPrice_or_default env tx)}
     \<and> (0 \<le> gasPrice_or_default env tx
          \<longrightarrow> hex_value gas_price = Some (nat (gasPrice_or_default env tx)))
     \<and> get_property p ''nonce'' = JStr nonce_hex
     \<and> even (length nonce_hex)
     \<and> nonce_hex \<in> {toString16 (nonce_or_default tx), CHR ''0'' # toString16 (nonce_or_default tx)}
     \<and> (0 \<le> nonce_or_default tx \<longrightarrow> hex_value nonce_hex = Some (nat (nonce_or_default tx)))
     \<and> get_property p ''chain_id'' = number_field (chainId tx)
     \<and> get_property p ''to'' = string_field (to tx)
     \<and> get_property p ''value'' = string_field (value tx)
     \<and> get_property p ''data'' = string_field (data tx)
     \<and> (\<forall>k. k \<notin> {''address_n'', ''gas_price'', ''gas_limit'', ''chain_id'', ''nonce'', ''to'',
                   ''value'', ''data''}
            \<longrightarrow> get_property p k = get_property (object_assign [] (PAYLOAD_SIGNTX env)) k)"
proof -
  let ?p = "signtx_payload env a (gasPrice_or_default env tx) (nonce_or_default tx) tx"
  have sent: "dispatched (snd (signTransaction_hardware env tx w)) = dispatched w @ [?p]"
    by (simp add: signTransaction_hardware_accepted [OF assms(1-5)] Let_def dispatched_after
          split: promise.splits)
  have gas: "get_property ?p ''gas_price'' = JStr gas_price"
    and nonce: "get_property ?p ''nonce'' = JStr nonce_hex"
    unfolding assms(6,7) by (rule signtx_payload_fields)+
  have even: "even (length gas_price)" "even (length nonce_hex)"
    unfolding assms(6,7) by (rule even_multipleOfTwoHexValueNormalizer)+
  have padded: "gas_price \<in> {toString16 (gasPrice_or_default env tx),
                      CHR ''0'' # toString16 (gasPrice_or_default env tx)}"
    "nonce_hex \<in> {toString16 (nonce_or_default tx), CHR ''0'' # toString16 (nonce_or_default tx)}"
    unfolding assms(6,7) by (simp_all add: multipleOfTwoHexValueNormalizer_def)
  have denotes: "0 \<le> gasPrice_or_default env tx
          \<longrightarrow> hex_value gas_price = Some (nat (gasPrice_or_default env tx))"
    "0 \<le> nonce_or_default tx \<longrightarrow> hex_value nonce_hex = Some (nat (nonce_or_default tx))"
    unfolding assms(6,7) by (simp_all add: hex_value_rendered)
  have template: "\<forall>k. k \<notin> {''address_n'', ''gas_price'', ''gas_limit'', ''chain_id'', ''nonce'',
                   ''to'', ''value'', ''data''}
            \<longrightarrow> get_property ?p k = get_property (object_assign [] (PAYLOAD_SIGNTX env)) k"
    by (intro allI impI signtx_payload_template)
  show ?thesis
    by (intro exI [of _ ?p] conjI sent gas nonce even padded denotes template
          signtx_payload_fields)
qed

theorem signTransaction_hardware_payload_witness:
  "\<exists>p. dispatched (snd (signTransaction_hardware
            (sample_imports (\<lambda>p. Resolved (JObj [(''r'', JStr ''aa''), (''s'', JStr ''bb''), (''v'', JStr ''1c'')])))
            sample_transaction initial_world)) = [p]
     \<and> get_property p ''address_n''
         = JArr [JNum 2147483692, JNum 2147483708, JNum 2147483648, JNum 0, JNum 0]
     \<and> get_property p ''gas_price'' = JStr ''02540be400''
     \<and> get_property p ''nonce'' = JStr ''00''
     \<and> get_property p ''chain_id'' = JNum 1
     \<and> get_property p ''to'' = JStr ''0x52908400098527886E0F7030069857D2E4169EE7''
     \<and> get_property p ''value'' = JStr ''01''
     \<and> get_property p ''data'' = JUndefined
     \<and> get_property p ''type'' = JStr ''SIGNTX''"
proof -
  let ?env = "sample_imports (\<lambda>p. Resolved (JObj [(''r'', JStr ''aa''), (''s'', JStr ''bb''), (''v'', JStr ''1c'')]))"
  have template: "get_property (object_assign [] (PAYLOAD_SIGNTX ?env)) ''type'' = JStr ''SIGNTX''"
    by (simp add: sample_imports_def object_assign_def get_property_def)
  from signTransaction_hardware_payload [OF sample_transaction_accepted refl refl,
      of "\<lambda>p. Resolved (JObj [(''r'', JStr ''aa''), (''s'', JStr ''bb''), (''v'', JStr ''1c'')])" initial_world]
  obtain p where p: "dispatched (snd (signTransaction_hardware ?env sample_transaction initial_world))
        = dispatched initial_world @ [p]"
      "get_property p ''address_n''
         = JArr (map (\<lambda>i. JNum (int i)) [2147483692, 2147483708, 2147483648, 0, 0])"
      "get_property p ''gas_price'' = JStr (multipleOfTwoHexValueNormalizer
         (toString16 (gasPrice_or_default ?env sample_transaction)))"
      "get_property p ''nonce'' = JStr (multipleOfTwoHexValueNormalizer
         (toString16 (nonce_or_default sample_transaction)))"
      "get_property p ''chain_id'' = number_field (chainId sample_transaction)"
      "get_property p ''to'' = string_field (to sample_transaction)"
      "get_property p ''value'' = string_field (value sample_transaction)"
      "get_property p ''data'' = string_field (data sample_transaction)"
      "\<forall>k. k \<notin> {''address_n'', ''gas_price'', ''gas_limit'', ''chain_id'', ''nonce'', ''to'',
                   ''value'', ''data''}
            \<longrightarrow> get_property p k = get_property (object_assign [] (PAYLOAD_SIGNTX ?env)) k"
    by blast
  from p(9) have "get_property p ''type'' = get_property (object_assign [] (PAYLOAD_SIGNTX ?env)) ''type''"
    by simp
  with p(1-8) template show ?thesis
    by (intro exI [of _ p]) (simp add: sample_defaults sample_rendered initial_world_def
          sample_transaction_fields)
qed

text \<open>
  Claim C4. For an address that \<^verbatim>\<open>validateAddress\<close> accepts, returning
  \<open>validatedAddress\<close>, \<^verbatim>\<open>verifyMessage\<close> hands the listener one payload whose
  \<^verbatim>\<open>address\<close> is \<open>validatedAddress\<close> without its leading \<^verbatim>\<open>0x\<close>, and unchanged when
  it has no such prefix; when the device answers with an object, the call resolves to the
  \<^verbatim>\<open>success\<close> flag of that answer.
\<close>

theorem verifyMessage_strips_prefix:
  assumes "validateAddress env (msg_address m) = Inr validatedAddress"
  shows "\<exists>p. dispatched (snd (verifyMessage env m w)) = dispatched w @ [p]
     \<and> (\<forall>rest. validatedAddress = ''0x'' @ rest \<longrightarrow> get_property p ''address'' = JStr rest)
     \<and> (take 2 validatedAddress \<noteq> ''0x'' \<longrightarrow> get_property p ''address'' = JStr validatedAddress)
     \<and> get_property p ''message'' = string_field (msg_message m)
     \<and> get_property p ''signature'' = string_field (msg_signature m)
     \<and> (\<forall>response. payloadListener env p = Resolved (JObj response)
           \<longrightarrow> fst (verifyMessage env m w) = Resolved (get_property response ''success''))"
proof -
  let ?stripped = "if take 2 validatedAddress = ''0x'' then drop 2 validatedAddress
                   else validatedAddress"
  let ?p = "verifymsg_payload env ?stripped m"
  have run: "verifyMessage env m w =
      (case payloadListener env ?p of
         Rejected e \<Rightarrow> (Rejected e, dispatch ?p w)
       | Resolved response \<Rightarrow>
           (case destructure response ''success'' of
              Inl e \<Rightarrow> (Rejected e, dispatch ?p w)
            | Inr isMessageValid \<Rightarrow> (Resolved isMessageValid, dispatch ?p w)))"
    using assms by (simp add: verifyMessage_def Let_def)
  have sent: "dispatched (snd (verifyMessage env m w)) = dispatched w @ [?p]"
    by (simp add: run dispatched_after split: promise.splits sum.splits)
  have prefixed: "\<forall>rest. validatedAddress = ''0x'' @ rest \<longrightarrow> get_property ?p ''address'' = JStr rest"
    by (simp add: verifymsg_payload_fields)
  have bare: "take 2 validatedAddress \<noteq> ''0x'' \<longrightarrow> get_property ?p ''address'' = JStr validatedAddress"
    by (simp add: verifymsg_payload_fields)
  have answer: "\<forall>response. payloadListener env ?p = Resolved (JObj response)
           \<longrightarrow> fst (verifyMessage env m w) = Resolved (get_property response ''success'')"
    by (simp add: run)
  show ?thesis
    apply (rule exI [of _ ?p])
    apply (intro conjI)
         apply (rule sent)
        apply (rule prefixed)
       apply (rule bare)
      apply (simp add: verifymsg_payload_fields)
     apply (simp add: verifymsg_payload_fields)
    apply (rule answer)
    done
qed

theorem verifyMessage_strips_prefix_witness:
  "(\<exists>p. dispatched (snd (verifyMessage
            (sample_imports (\<lambda>p. Resolved (JObj [(''success'', JBool True)])))
            sample_message initial_world)) = [p]
      \<and> get_property p ''address'' = JStr ''52908400098527886E0F7030069857D2E4169EE7''
      \<and> fst (verifyMessage (sample_imports (\<lambda>p. Resolved (JObj [(''success'', JBool True)])))
            sample_message initial_world) = Resolved (JBool True))
   \<and> (\<exists>p. dispatched (snd (verifyMessage
            (sample_imports (\<lambda>p. Resolved (JObj [(''success'', JBool False)])))
            (sample_message\<lparr>msg_address := Some ''52908400098527886E0F7030069857D2E4169EE7''\<rparr>)
            initial_world)) = [p]
      \<and> get_property p ''address'' = JStr ''52908400098527886E0F7030069857D2E4169EE7''
      \<and> fst (verifyMessage (sample_imports (\<lambda>p. Resolved (JObj [(''success'', JBool False)])))
            (sample_message\<lparr>msg_address := Some ''52908400098527886E0F7030069857D2E4169EE7''\<rparr>)
            initial_world) = Resolved (JBool False))"
proof (intro conjI)
  let ?env = "sample_imports (\<lambda>p. Resolved (JObj [(''success'', JBool True)]))"
  have valid: "validateAddress ?env (msg_address sample_message)
      = Inr ''0x52908400098527886E0F7030069857D2E4169EE7''"
    by (simp add: sample_imports_def sample_message_def sample_address_accepted)
  from verifyMessage_strips_prefix [OF valid, of initial_world]
  obtain p where p: "dispatched (snd (verifyMessage ?env sample_message initial_world))
        = dispatched initial_world @ [p]"
      "\<forall>rest. ''0x52908400098527886E0F7030069857D2E4169EE7'' = ''0x'' @ rest
          \<longrightarrow> get_property p ''address'' = JStr rest"
      "\<forall>response. payloadListener ?env p = Resolved (JObj response)
          \<longrightarrow> fst (verifyMessage ?env sample_message initial_world)
              = Resolved (get_property response ''success'')"
    by blast
  from p(2) have address: "get_property p ''address'' = JStr ''52908400098527886E0F7030069857D2E4169EE7''"
    by simp
  from p(3) have answer: "fst (verifyMessage ?env sample_message initial_world) = Resolved (JBool True)"
    by (simp add: sample_imports_def get_property_def)
  from p(1) address answer
  show "\<exists>p. dispatched (snd (verifyMessage ?env sample_message initial_world)) = [p]
      \<and> get_property p ''address'' = JStr ''52908400098527886E0F7030069857D2E4169EE7''
      \<and> fst (verifyMessage ?env sample_message initial_world) = Resolved (JBool True)"
    by (intro exI [of _ p]) (simp add: initial_world_def)
next
  let ?env = "sample_imports (\<lambda>p. Resolved (JObj [(''success'', JBool False)]))"
  let ?m = "sample_message\<lparr>msg_address := Some ''52908400098527886E0F7030069857D2E4169EE7''\<rparr>"
  have valid: "validateAddress ?env (msg_address ?m)
      = Inr ''52908400098527886E0F7030069857D2E4169EE7''"
    by (simp add: sample_imports_def sample_address_accepted)
  from verifyMessage_strips_prefix [OF valid, of initial_world]
  obtain p where p: "dispatched (snd (verifyMessage ?env ?m initial_world))
        = dispatched initial_world @ [p]"
      "take 2 ''52908400098527886E0F7030069857D2E4169EE7'' \<noteq> ''0x''
          \<longrightarrow> get_property p ''address'' = JStr ''52908400098527886E0F7030069857D2E4169EE7''"
      "\<forall>response. payloadListener ?env p = Resolved (JObj response)
          \<longrightarrow> fst (verifyMessage ?env ?m initial_world)
              = Resolved (get_property response ''success'')"
    by blast
  from p(2) have address: "get_property p ''address'' = JStr ''52908400098527886E0F7030069857D2E4169EE7''"
    by simp
  from p(3) have answer: "fst (verifyMessage ?env ?m initial_world) = Resolved (JBool False)"
    by (simp add: sample_imports_def get_property_def)
  from p(1) address answer
  show "\<exists>p. dispatched (snd (verifyMessage ?env ?m initial_world)) = [p]
      \<and> get_property p ''address'' = JStr ''52908400098527886E0F7030069857D2E4169EE7''
      \<and> fst (verifyMessage ?env ?m initial_world) = Resolved (JBool False)"
    by (intro exI [of _ p]) (simp add: initial_world_def)
qed

text \<open>
  Claim C5. When a validator of the hardware \<^verbatim>\<open>signTransaction\<close> fails (the path, the
  gas price, the chain id or the nonce, in the order they are called, the earlier ones
  having accepted), the call rejects with the error \<open>e\<close> of that validator and leaves
  the world as it was: no payload has been handed to the listener and no warning logged.
  This holds for every \<open>e\<close>, also one whose message is the cancellation sentinel: the
  validators run outside the \<^verbatim>\<open>try\<close>.
\<close>

theorem signTransaction_hardware_validation_error:
  assumes "derivationPathValidator env (path tx) = Inl e
      \<or> (derivationPathValidator env (path tx) = Inr ()
          \<and> bigNumberValidator env (gasPrice_or_default env tx) = Inl e)
      \<or> (derivationPathValidator env (path tx) = Inr ()
          \<and> bigNumberValidator env (gasPrice_or_default env tx) = Inr ()
          \<and> safeIntegerValidator env (chainId tx) = Inl e)
      \<or> (derivationPathValidator env (path tx) = Inr ()
          \<and> bigNumberValidator env (gasPrice_or_default env tx) = Inr ()
          \<and> safeIntegerValidator env (chainId tx) = Inr ()
          \<and> safeIntegerValidator env (Some (nonce_or_default tx)) = Inl e)"
  shows "signTransaction_hardware env tx w = (Rejected e, w)"
  using assms by (auto simp: signTransaction_hardware_def Let_def)

theorem signTransaction_hardware_validation_error_witness:
  "signTransaction_hardware (sample_imports (\<lambda>p. Rejected (Error ''Action cancelled by user'')))
       (sample_transaction\<lparr>path := Some ''m/44/60''\<rparr>) initial_world
     = (Rejected (Error ''The derivation path is not in the correct format''), initial_world)
   \<and> signTransaction_hardware (sample_imports (\<lambda>p. Rejected (Error ''Action cancelled by user'')))
       (sample_transaction\<lparr>gasPrice := Some (- 1)\<rparr>) initial_world
     = (Rejected (Error ''The value is not a big number''), initial_world)
   \<and> signTransaction_hardware (sample_imports (\<lambda>p. Rejected (Error ''Action cancelled by user'')))
       (sample_transaction\<lparr>chainId := None\<rparr>) initial_world
     = (Rejected (Error ''The value is not a safe integer''), initial_world)
   \<and> signTransaction_hardware (sample_imports (\<lambda>p. Rejected (Error ''Action cancelled by user'')))
       (sample_transaction\<lparr>nonce := Some 9007199254740992\<rparr>) initial_world
     = (Rejected (Error ''The value is not a safe integer''), initial_world)"
proof -
  let ?env = "sample_imports (\<lambda>p. Rejected (Error ''Action cancelled by user''))"
  have validators: "derivationPathValidator ?env = sample_derivationPathValidator"
    "bigNumberValidator ?env = sample_bigNumberValidator"
    "safeIntegerValidator ?env = sample_safeIntegerValidator"
    "toGwei ?env = (\<lambda>n. n * 1000000000)"
    by (simp_all add: sample_imports_def)
  have path: "path sample_transaction = Some ''m/44'/60'/0'/0/0''"
    by (simp add: sample_transaction_def)
  have bad_path: "derivationPathValidator ?env (path (sample_transaction\<lparr>path := Some ''m/44/60''\<rparr>))
      = Inl (Error ''The derivation path is not in the correct format'')"
    by (simp add: validators sample_derivationPathValidator_def)
  have bad_gas: "derivationPathValidator ?env (path (sample_transaction\<lparr>gasPrice := Some (- 1)\<rparr>)) = Inr ()
      \<and> bigNumberValidator ?env
          (gasPrice_or_default ?env (sample_transaction\<lparr>gasPrice := Some (- 1)\<rparr>))
        = Inl (Error ''The value is not a big number'')"
    by (simp add: validators path sample_path_accepted gasPrice_or_default_def
          sample_bigNumberValidator_def)
  have bad_chain: "derivationPathValidator ?env (path (sample_transaction\<lparr>chainId := None\<rparr>)) = Inr ()
      \<and> bigNumberValidator ?env
          (gasPrice_or_default ?env (sample_transaction\<lparr>chainId := None\<rparr>)) = Inr ()
      \<and> safeIntegerValidator ?env (chainId (sample_transaction\<lparr>chainId := None\<rparr>))
        = Inl (Error ''The value is not a safe integer'')"
    by (simp add: validators path sample_path_accepted gasPrice_or_default_def
          sample_transaction_fields sample_bigNumberValidator_def sample_safeIntegerValidator_def)
  have bad_nonce: "derivationPathValidator ?env
          (path (sample_transaction\<lparr>nonce := Some 9007199254740992\<rparr>)) = Inr ()
      \<and> bigNumberValidator ?env
          (gasPrice_or_default ?env (sample_transaction\<lparr>nonce := Some 9007199254740992\<rparr>)) = Inr ()
      \<and> safeIntegerValidator ?env
          (chainId (sample_transaction\<lparr>nonce := Some 9007199254740992\<rparr>)) = Inr ()
      \<and> safeIntegerValidator ?env
          (Some (nonce_or_default (sample_transaction\<lparr>nonce := Some 9007199254740992\<rparr>)))
        = Inl (Error ''The value is not a safe integer'')"
    by (simp add: validators path sample_path_accepted gasPrice_or_default_def
          nonce_or_default_def sample_transaction_fields sample_bigNumberValidator_def
          sample_safeIntegerValidator_def)
  show ?thesis
    using signTransaction_hardware_validation_error [of ?env _ _ initial_world, OF disjI1, OF bad_path]
      signTransaction_hardware_validation_error [of ?env _ _ initial_world, OF disjI2, OF disjI1, OF bad_gas]
      signTransaction_hardware_validation_error [of ?env _ _ initial_world, OF disjI2, OF disjI2,
        OF disjI1, OF bad_chain]
      signTransaction_hardware_validation_error [of ?env _ _ initial_world, OF disjI2, OF disjI2,
        OF disjI2, OF bad_nonce]
    by (intro conjI)
qed

text \<open>
  Claim C6. In the hardware \<^verbatim>\<open>signTransaction\<close> an absent \<^verbatim>\<open>nonce\<close> behaves as the
  nonce 0 and an absent \<^verbatim>\<open>gasPrice\<close> as the fixed default \<^verbatim>\<open>bigNumber(10).toGwei()\<close>;
  a nonce or gas price that is supplied is the one used, and the payload of an accepted
  request carries the supplied \<^verbatim>\<open>gasLimit\<close>, \<^verbatim>\<open>chainId\<close>, \<^verbatim>\<open>to\<close>, \<^verbatim>\<open>value\<close> and
  \<^verbatim>\<open>data\<close> unchanged.
\<close>

theorem signTransaction_hardware_defaults:
  "(nonce tx = None \<longrightarrow>
      signTransaction_hardware env tx w = signTransaction_hardware env (tx\<lparr>nonce := Some 0\<rparr>) w)
   \<and> (gasPrice tx = None \<longrightarrow>
      signTransaction_hardware env tx w
        = signTransaction_hardware env (tx\<lparr>gasPrice := Some (toGwei env 10)\<rparr>) w)
   \<and> (\<forall>n. nonce tx = Some n \<longrightarrow> nonce_or_default tx = n)
   \<and> (\<forall>g. gasPrice tx = Some g \<longrightarrow> gasPrice_or_default env tx = g)
   \<and> (derivationPathValidator env (path tx) = Inr ()
       \<and> bigNumberValidator env (gasPrice_or_default env tx) = Inr ()
       \<and> safeIntegerValidator env (chainId tx) = Inr ()
       \<and> safeIntegerValidator env (Some (nonce_or_default tx)) = Inr ()
       \<and> fromString_toPathArray env (derivationPathNormalizer env (path tx)) = Inr a
      \<longrightarrow> (\<exists>p. dispatched (snd (signTransaction_hardware env tx w)) = dispatched w @ [p]
            \<and> get_property p ''gas_price''
                = JStr (multipleOfTwoHexValueNormalizer (toString16 (gasPrice_or_default env tx)))
            \<and> get_property p ''nonce''
                = JStr (multipleOfTwoHexValueNormalizer (toString16 (nonce_or_default tx)))
            \<and> get_property p ''gas_limit'' = string_field (gasLimit tx)
            \<and> get_property p ''chain_id'' = number_field (chainId tx)
            \<and> get_property p ''to'' = string_field (to tx)
            \<and> get_property p ''value'' = string_field (value tx)
            \<and> get_property p ''data'' = string_field (data tx)))"
proof (intro conjI impI allI)
  assume "nonce tx = None"
  then show "signTransaction_hardware env tx w
      = signTransaction_hardware env (tx\<lparr>nonce := Some 0\<rparr>) w"
    by (simp add: signTransaction_hardware_def nonce_or_default_def gasPrice_or_default_def
          signtx_payload_def signtx_fields_def Let_def split: sum.splits)
next
  assume "gasPrice tx = None"
  then show "signTransaction_hardware env tx w
      = signTransaction_hardware env (tx\<lparr>gasPrice := Some (toGwei env 10)\<rparr>) w"
    by (simp add: signTransaction_hardware_def nonce_or_default_def gasPrice_or_default_def
          signtx_payload_def signtx_fields_def Let_def split: sum.splits)
next
  fix n assume "nonce tx = Some n"
  then show "nonce_or_default tx = n" by (simp add: nonce_or_default_def)
next
  fix g assume "gasPrice tx = Some g"
  then show "gasPrice_or_default env tx = g" by (simp add: gasPrice_or_default_def)
next
  let ?p = "signtx_payload env a (gasPrice_or_default env tx) (nonce_or_default tx) tx"
  assume accepted: "derivationPathValidator env (path tx) = Inr ()
       \<and> bigNumberValidator env (gasPrice_or_default env tx) = Inr ()
       \<and> safeIntegerValidator env (chainId tx) = Inr ()
       \<and> safeIntegerValidator env (Some (nonce_or_default tx)) = Inr ()
       \<and> fromString_toPathArray env (derivationPathNormalizer env (path tx)) = Inr a"
  then have "signTransaction_hardware env tx w =
     (let p = ?p
      in case payloadListener env p of
           Resolved signedTransaction \<Rightarrow> (Resolved signedTransaction, dispatch p w)
         | Rejected caughtError \<Rightarrow>
             (Resolved JUndefined,
              if message caughtError = CANCEL_TX_SIGN env
              then warning (userSignTxCancel env) (dispatch p w) else dispatch p w))"
    by (intro signTransaction_hardware_accepted) simp_all
  then have "dispatched (snd (signTransaction_hardware env tx w)) = dispatched w @ [?p]"
    by (simp add: Let_def dispatched_after split: promise.splits)
  then show "\<exists>p. dispatched (snd (signTransaction_hardware env tx w)) = dispatched w @ [p]
            \<and> get_property p ''gas_price''
                = JStr (multipleOfTwoHexValueNormalizer (toString16 (gasPrice_or_default env tx)))
            \<and> get_property p ''nonce''
                = JStr (multipleOfTwoHexValueNormalizer (toString16 (nonce_or_default tx)))
            \<and> get_property p ''gas_limit'' = string_field (gasLimit tx)
            \<and> get_property p ''chain_id'' = number_field (chainId tx)
            \<and> get_property p ''to'' = string_field (to tx)
            \<and> get_property p ''value'' = string_field (value tx)
            \<and> get_property p ''data'' = string_field (data tx)"
    by (intro exI [of _ ?p]) (simp add: signtx_payload_fields)
qed

theorem signTransaction_hardware_defaults_witness:
  "nonce sample_transaction = None
   \<and> gasPrice sample_transaction = None
   \<and> signTransaction_hardware (sample_imports (\<lambda>p. Resolved JUndefined)) sample_transaction
        initial_world
      = signTransaction_hardware (sample_imports (\<lambda>p. Resolved JUndefined))
          (sample_transaction\<lparr>nonce := Some 0\<rparr>) initial_world
   \<and> signTransaction_hardware (sample_imports (\<lambda>p. Resolved JUndefined)) sample_transaction
        initial_world
      = signTransaction_hardware (sample_imports (\<lambda>p. Resolved JUndefined))
          (sample_transaction\<lparr>gasPrice := Some 10000000000\<rparr>) initial_world
   \<and> nonce_or_default (sample_transaction\<lparr>nonce := Some 3\<rparr>) = 3
   \<and> gasPrice_or_default (sample_imports (\<lambda>p. Resolved JUndefined))
        (sample_transaction\<lparr>gasPrice := Some 20000000000\<rparr>) = 20000000000
   \<and> (\<exists>p. dispatched (snd (signTransaction_hardware (sample_imports (\<lambda>p. Resolved JUndefined))
               sample_transaction initial_world)) = [p]
        \<and> get_property p ''gas_price'' = JStr ''02540be400''
        \<and> get_property p ''nonce'' = JStr ''00''
        \<and> get_property p ''gas_limit'' = JStr ''5208''
        \<and> get_property p ''chain_id'' = JNum 1
        \<and> get_property p ''to'' = JStr ''0x52908400098527886E0F7030069857D2E4169EE7''
        \<and> get_property p ''value'' = JStr ''01''
        \<and> get_property p ''data'' = JUndefined)"
proof -
  let ?env = "sample_imports (\<lambda>p. Resolved JUndefined)"
  have gwei: "toGwei ?env 10 = 10000000000"
    by (simp add: sample_imports_def)
  note defaults = signTransaction_hardware_defaults
  have absent: "nonce sample_transaction = None" "gasPrice sample_transaction = None"
    by (simp_all add: sample_transaction_fields)
  have zero: "signTransaction_hardware ?env sample_transaction initial_world
      = signTransaction_hardware ?env (sample_transaction\<lparr>nonce := Some 0\<rparr>) initial_world"
    by (rule mp [OF defaults [of sample_transaction ?env initial_world, THEN conjunct1] absent(1)])
  have ten: "signTransaction_hardware ?env sample_transaction initial_world
      = signTransaction_hardware ?env (sample_transaction\<lparr>gasPrice := Some 10000000000\<rparr>)
          initial_world"
    using mp [OF defaults [of sample_transaction ?env initial_world, THEN conjunct2, THEN conjunct1]
        absent(2)]
    by (simp only: gwei)
  have kept: "nonce_or_default (sample_transaction\<lparr>nonce := Some 3\<rparr>) = 3"
    using defaults [of "sample_transaction\<lparr>nonce := Some 3\<rparr>" ?env initial_world] by simp
  have kept': "gasPrice_or_default ?env (sample_transaction\<lparr>gasPrice := Some 20000000000\<rparr>)
      = 20000000000"
    using defaults [of "sample_transaction\<lparr>gasPrice := Some 20000000000\<rparr>" ?env initial_world]
    by simp
  from defaults [of sample_transaction ?env initial_world "[2147483692, 2147483708, 2147483648, 0, 0]"]
    sample_transaction_accepted [of "\<lambda>p. Resolved JUndefined"]
  have "\<exists>p. dispatched (snd (signTransaction_hardware ?env sample_transaction initial_world))
            = dispatched initial_world @ [p]
        \<and> get_property p ''gas_price''
            = JStr (multipleOfTwoHexValueNormalizer
                 (toString16 (gasPrice_or_default ?env sample_transaction)))
        \<and> get_property p ''nonce''
            = JStr (multipleOfTwoHexValueNormalizer (toString16 (nonce_or_default sample_transaction)))
        \<and> get_property p ''gas_limit'' = string_field (gasLimit sample_transaction)
        \<and> get_property p ''chain_id'' = number_field (chainId sample_transaction)
        \<and> get_property p ''to'' = string_field (to sample_transaction)
        \<and> get_property p ''value'' = string_field (value sample_transaction)
        \<and> get_property p ''data'' = string_field (data sample_transaction)"
    by blast
  then have payload: "\<exists>p. dispatched (snd (signTransaction_hardware ?env sample_transaction initial_world)) = [p]
        \<and> get_property p ''gas_price'' = JStr ''02540be400''
        \<and> get_property p ''nonce'' = JStr ''00''
        \<and> get_property p ''gas_limit'' = JStr ''5208''
        \<and> get_property p ''chain_id'' = JNum 1
        \<and> get_property p ''to'' = JStr ''0x52908400098527886E0F7030069857D2E4169EE7''
        \<and> get_property p ''value'' = JStr ''01''
        \<and> get_property p ''data'' = JUndefined"
    by (simp add: sample_defaults sample_rendered sample_transaction_fields initial_world_def)
  show ?thesis
    by (intro conjI absent zero ten kept kept' payload)
qed

text \<open>
  Claim C9. The hardware \<^verbatim>\<open>signMessage\<close> has no handler around the dispatch: when the
  listener rejects with \<open>e\<close>, whatever \<open>e\<close> is (the cancellation included), the call
  rejects with \<open>e\<close>, does not resolve to \<^verbatim>\<open>undefined\<close> and logs nothing; whereas the
  hardware \<^verbatim>\<open>signTransaction\<close>, on an accepted request whose dispatch is rejected with
  the same \<open>e\<close>, resolves to \<^verbatim>\<open>undefined\<close>.
\<close>

theorem signMessage_hardware_rejection_propagates:
  assumes "derivationPathValidator env (msg_path m) = Inr ()"
    and "fromString_toPathArray env (derivationPathNormalizer env (msg_path m)) = Inr a"
    and "payloadListener env (signmsg_payload env a m) = Rejected e"
  shows "signMessage_hardware env m w = (Rejected e, dispatch (signmsg_payload env a m) w)
     \<and> fst (signMessage_hardware env m w) \<noteq> Resolved JUndefined
     \<and> warnings (snd (signMessage_hardware env m w)) = warnings w
     \<and> (\<forall>tx b. derivationPathValidator env (path tx) = Inr ()
            \<and> bigNumberValidator env (gasPrice_or_default env tx) = Inr ()
            \<and> safeIntegerValidator env (chainId tx) = Inr ()
            \<and> safeIntegerValidator env (Some (nonce_or_default tx)) = Inr ()
            \<and> fromString_toPathArray env (derivationPathNormalizer env (path tx)) = Inr b
            \<and> payloadListener env
                 (signtx_payload env b (gasPrice_or_default env tx) (nonce_or_default tx) tx)
               = Rejected e
          \<longrightarrow> fst (signTransaction_hardware env tx w) = Resolved JUndefined)"
proof -
  have propagated: "signMessage_hardware env m w
      = (Rejected e, dispatch (signmsg_payload env a m) w)"
    using assms by (simp add: signMessage_hardware_def Let_def)
  have contrast: "fst (signTransaction_hardware env tx w) = Resolved JUndefined"
    if "derivationPathValidator env (path tx) = Inr ()
        \<and> bigNumberValidator env (gasPrice_or_default env tx) = Inr ()
        \<and> safeIntegerValidator env (chainId tx) = Inr ()
        \<and> safeIntegerValidator env (Some (nonce_or_default tx)) = Inr ()
        \<and> fromString_toPathArray env (derivationPathNormalizer env (path tx)) = Inr b
        \<and> payloadListener env
             (signtx_payload env b (gasPrice_or_default env tx) (nonce_or_default tx) tx)
           = Rejected e" for tx b
  proof -
    from that have "signTransaction_hardware env tx w =
       (let p = signtx_payload env b (gasPrice_or_default env tx) (nonce_or_default tx) tx
        in case payloadListener env p of
             Resolved signedTransaction \<Rightarrow> (Resolved signedTransaction, dispatch p w)
           | Rejected caughtError \<Rightarrow>
               (Resolved JUndefined,
                if message caughtError = CANCEL_TX_SIGN env
                then warning (userSignTxCancel env) (dispatch p w) else dispatch p w))"
      by (intro signTransaction_hardware_accepted) simp_all
    with that show ?thesis by (simp add: Let_def)
  qed
  show ?thesis
  proof (intro conjI allI impI)
    show "signMessage_hardware env m w = (Rejected e, dispatch (signmsg_payload env a m) w)"
      by (rule propagated)
    show "fst (signMessage_hardware env m w) \<noteq> Resolved JUndefined"
      by (simp add: propagated)
    show "warnings (snd (signMessage_hardware env m w)) = warnings w"
      by (simp add: propagated dispatched_after)
  qed (erule contrast)
qed

theorem signMessage_hardware_rejection_propagates_witness:
  "message (Error ''Action cancelled by user'')
     = CANCEL_TX_SIGN (sample_imports (\<lambda>p. Rejected (Error ''Action cancelled by user'')))
   \<and> fst (signMessage_hardware (sample_imports (\<lambda>p. Rejected (Error ''Action cancelled by user'')))
           sample_message initial_world) = Rejected (Error ''Action cancelled by user'')
   \<and> warnings (snd (signMessage_hardware
           (sample_imports (\<lambda>p. Rejected (Error ''Action cancelled by user'')))
           sample_message initial_world)) = []
   \<and> fst (signTransaction_hardware (sample_imports (\<lambda>p. Rejected (Error ''Action cancelled by user'')))
           sample_transaction initial_world) = Resolved JUndefined"
proof -
  let ?env = "sample_imports (\<lambda>p. Rejected (Error ''Action cancelled by user''))"
  have device: "payloadListener ?env p = Rejected (Error ''Action cancelled by user'')" for p
    by (simp add: sample_imports_def)
  have sentinel: "message (Error ''Action cancelled by user'') = CANCEL_TX_SIGN ?env"
    by (simp add: sample_imports_def)
  have quiet: "warnings initial_world = []"
    by (simp add: initial_world_def)
  note run = signMessage_hardware_rejection_propagates [OF sample_message_accepted device,
      of initial_world]
  have message: "fst (signMessage_hardware ?env sample_message initial_world)
      = Rejected (Error ''Action cancelled by user'')"
    by (simp add: run [THEN conjunct1])
  have silent: "warnings (snd (signMessage_hardware ?env sample_message initial_world)) = []"
    by (simp add: run [THEN conjunct2, THEN conjunct2, THEN conjunct1] quiet)
  have transaction: "fst (signTransaction_hardware ?env sample_transaction initial_world)
      = Resolved JUndefined"
    using run [THEN conjunct2, THEN conjunct2, THEN conjunct2, rule_format,
        of sample_transaction "[2147483692, 2147483708, 2147483648, 0, 0]"]
      sample_transaction_accepted [of "\<lambda>p. Rejected (Error ''Action cancelled by user'')"] device
    by blast
  show ?thesis
    by (intro conjI sentinel message silent transaction)
qed

section \<open>The software path\<close>

text \<open>
  Claim C2. Whenever the signer callback throws, the software \<^verbatim>\<open>signTransaction\<close>
  throws one \<^verbatim>\<open>Error\<close> whose message is the prefix \<^verbatim>\<open>messages.cannotSign\<close>, the
  serialized transaction object (the argument as it was passed, without the callback) and
  the message of the caught error, in this order and separated by one space: it starts
  with the prefix, contains the serialized object and ends with the original message.
\<close>

theorem signTransaction_software_callback_throws:
  assumes "transactionObjectValidator env transactionObject = Inr v"
    and "callback (signer_request_of env v) = Inl caughtError"
  shows "\<exists>msg. signTransaction_software env callback transactionObject = Rejected (Error msg)
     \<and> msg = cannotSign env @ '' '' @ objectToErrorString env transactionObject @ '' ''
              @ message caughtError
     \<and> prefix (cannotSign env) msg
     \<and> sublist (objectToErrorString env transactionObject) msg
     \<and> suffix (message caughtError) msg"
proof -
  let ?msg = "cannotSign env @ '' '' @ objectToErrorString env transactionObject @ '' ''
              @ message caughtError"
  have thrown: "signTransaction_software env callback transactionObject = Rejected (Error ?msg)"
    using assms by (simp add: signTransaction_software_def)
  have starts: "prefix (cannotSign env) ?msg"
    by (rule prefixI) simp
  have ends: "suffix (message caughtError) ?msg"
    by (rule suffixI [of _ "cannotSign env @ '' '' @ objectToErrorString env transactionObject @ '' ''"])
      simp
  have holds: "sublist (objectToErrorString env transactionObject) ?msg"
    unfolding sublist_def
    by (intro exI [of _ "cannotSign env @ '' ''"] exI [of _ "'' '' @ message caughtError"]) simp
  show ?thesis
    by (intro exI [of _ ?msg] conjI thrown refl starts holds ends)
qed

theorem signTransaction_software_callback_throws_witness:
  "signTransaction_software sample_sw_imports (\<lambda>request. Inl (Error ''boom''))
       sample_transactionObject
     = Rejected (Error (''Cannot sign the transaction ''
          @ ''chainId: 0x1, to: 0x52908400098527886E0F7030069857D2E4169EE7, nonce: 0x3, ''
          @ '' boom''))"
proof -
  have thrown: "(\<lambda>request. Inl (Error ''boom'') :: js_error + string)
      (signer_request_of sample_sw_imports
         \<lparr>v_gasPrice = 9000000000, v_gasLimit = 21000, v_chainId = 1, v_nonce = 3,
          v_to = ''0x52908400098527886E0F7030069857D2E4169EE7'', v_value = 1, v_inputData = []\<rparr>)
      = Inl (Error ''boom'')"
    by simp
  have serialized: "objectToErrorString sample_sw_imports sample_transactionObject
      = ''chainId: 0x1, to: 0x52908400098527886E0F7030069857D2E4169EE7, nonce: 0x3, ''"
    by (simp add: sample_sw_imports_def sample_objectToErrorString_def
          sample_transactionObject_def toString16_def to_hex.simps hex_digit_def)
  have fixed: "cannotSign sample_sw_imports = ''Cannot sign the transaction''"
    by (simp add: sample_sw_imports_def)
  from signTransaction_software_callback_throws [OF sample_transactionObject_validated thrown]
  show ?thesis
    by (simp add: serialized fixed)
qed

text \<open>
  Claim C7. For a transaction object the validator accepts and a callback that returns
  \<open>signedTransaction\<close>, the software \<^verbatim>\<open>signTransaction\<close> resolves to
  \<^verbatim>\<open>hexSequenceNormalizer(signedTransaction)\<close>: the prefix \<^verbatim>\<open>0x\<close> followed by an even
  number of digits that denote the same value as the digits the callback returned.
\<close>

theorem signTransaction_software_returns_normalized:
  assumes "transactionObjectValidator env transactionObject = Inr v"
    and "callback (signer_request_of env v) = Inr signedTransaction"
  shows "\<exists>digits. signTransaction_software env callback transactionObject
        = Resolved (hexSequenceNormalizer signedTransaction)
     \<and> hexSequenceNormalizer signedTransaction = ''0x'' @ digits
     \<and> even (length digits)
     \<and> hex_value digits = hex_value (without_prefix signedTransaction)"
proof -
  have "signTransaction_software env callback transactionObject
        = Resolved (hexSequenceNormalizer signedTransaction)"
    using assms by (simp add: signTransaction_software_def)
  with hexSequenceNormalizer_shape [of signedTransaction] show ?thesis
    by blast
qed

theorem signTransaction_software_returns_normalized_witness:
  "signTransaction_software sample_sw_imports (\<lambda>request. Inr ''f86b8'')
       sample_transactionObject = Resolved ''0x0f86b8''
   \<and> hex_value ''0f86b8'' = hex_value ''f86b8''"
proof -
  have returned: "(\<lambda>request. Inr ''f86b8'' :: js_error + string)
      (signer_request_of sample_sw_imports
         \<lparr>v_gasPrice = 9000000000, v_gasLimit = 21000, v_chainId = 1, v_nonce = 3,
          v_to = ''0x52908400098527886E0F7030069857D2E4169EE7'', v_value = 1, v_inputData = []\<rparr>)
      = Inr ''f86b8''"
    by simp
  have normal: "hexSequenceNormalizer ''f86b8'' = ''0x0f86b8''"
    by (simp add: hexSequenceNormalizer_def without_prefix_def)
  from signTransaction_software_returns_normalized
    [OF sample_transactionObject_validated returned]
  show ?thesis
    by (simp add: normal without_prefix_def)
qed

text \<open>
  Claim C8. Reading the visual identifier of a wallet without address resolves to no
  value, logs the warning, and hands nothing to the icon library.
\<close>

theorem blockie_without_address:
  assumes "address wallet = None"
  shows "fst (blockie create noAddress wallet w) = Resolved JUndefined
     \<and> warnings (snd (blockie create noAddress wallet w)) = warnings w @ [noAddress]
     \<and> icons_created (snd (blockie create noAddress wallet w)) = icons_created w"
  using assms by (simp add: blockie_def dispatched_after)

theorem blockie_without_address_witness:
  "address \<lparr>address = None\<rparr> = None
   \<and> fst (blockie (\<lambda>seed. ''data:image/png;base64,'' @ seed) ''No address set'' \<lparr>address = None\<rparr>
            initial_world) = Resolved JUndefined
   \<and> warnings (snd (blockie (\<lambda>seed. ''data:image/png;base64,'' @ seed) ''No address set''
            \<lparr>address = None\<rparr> initial_world)) = [''No address set'']
   \<and> icons_created (snd (blockie (\<lambda>seed. ''data:image/png;base64,'' @ seed) ''No address set''
            \<lparr>address = None\<rparr> initial_world)) = []"
proof -
  have unset: "address \<lparr>address = None\<rparr> = None" by simp
  show ?thesis
    using blockie_without_address [OF unset,
        of "\<lambda>seed. ''data:image/png;base64,'' @ seed" "''No address set''" initial_world]
    by (simp add: initial_world_def)
qed

end
